theory Spec2Isabelle
  imports Complex_Main "HOL-Library.Multiset"
begin

section \<open>JavaScript strings and the string built-ins the pages call\<close>

text \<open>
  A JavaScript string is a sequence of UTF-16 code units; \<open>===\<close> on strings is equality
  of these sequences. The pages compare record fields with URL parameters, so the model
  keeps code units (as natural numbers) rather than 8-bit characters. \<open>str\<close> writes an
  ASCII literal.
\<close>

type_synonym jsstring = "nat list"

definition str :: "string \<Rightarrow> jsstring" where
  "str s = map of_char s"

text \<open>
  The set matched by \<open>\s\<close> in a regular expression and stripped by
  \<open>String.prototype.trim\<close>: ECMAScript's WhiteSpace and LineTerminator code points.
\<close>

definition isWhiteSpace :: "nat \<Rightarrow> bool" where
  "isWhiteSpace c \<longleftrightarrow>
     (0x09 \<le> c \<and> c \<le> 0x0D) \<or> c = 0x20 \<or> c = 0xA0 \<or> c = 0x1680 \<or>
     (0x2000 \<le> c \<and> c \<le> 0x200A) \<or> c = 0x2028 \<or> c = 0x2029 \<or> c = 0x202F \<or>
     c = 0x205F \<or> c = 0x3000 \<or> c = 0xFEFF"

text \<open>\<open>s.trim()\<close>\<close>

definition trim :: "jsstring \<Rightarrow> jsstring" where
  "trim s = rev (dropWhile isWhiteSpace (rev (dropWhile isWhiteSpace s)))"

text \<open>\<open>s.replace(/\s+/g, ' ')\<close>: every maximal run of white space becomes one space.\<close>

function collapse_ws :: "jsstring \<Rightarrow> jsstring" where
  "collapse_ws [] = []"
| "collapse_ws (c # cs) =
     (if isWhiteSpace c then 0x20 # collapse_ws (dropWhile isWhiteSpace cs)
      else c # collapse_ws cs)"
  by pat_completeness auto
termination
  by (relation "measure length") (auto simp: less_Suc_eq_le length_dropWhile_le)

text \<open>\<open>s.startsWith(n)\<close> and \<open>s.includes(n)\<close>\<close>

definition startsWith :: "jsstring \<Rightarrow> jsstring \<Rightarrow> bool" where
  "startsWith s n \<longleftrightarrow> take (length n) s = n"

fun includes_js :: "jsstring \<Rightarrow> jsstring \<Rightarrow> bool" where
  "includes_js [] n \<longleftrightarrow> n = []"
| "includes_js (c # cs) n \<longleftrightarrow> startsWith (c # cs) n \<or> includes_js cs n"

text \<open>
  \<open>String.prototype.normalize('NFKC')\<close> and \<open>String.prototype.toLowerCase\<close> are
  computed by the host from the Unicode character database, which is not part of the
  repository. They are parameters of the model: every function below that calls them
  takes the pair as its first argument, and a theorem stated for all \<open>U\<close> holds whatever
  the host's tables are.
\<close>

record unicode =
  normalizeNFKC :: "jsstring \<Rightarrow> jsstring"
  toLowerCase :: "jsstring \<Rightarrow> jsstring"

text \<open>
  For concrete runs: the two built-ins on the inputs used in this theory. On strings of
  ASCII code units NFKC changes nothing and lowercasing maps \<open>A\<close>..\<open>Z\<close> to \<open>a\<close>..\<open>z\<close>.
  U+030C (combining caron) has no case mapping; \<open>J\<close> followed by U+030C has no
  precomposed form, while \<open>j\<close> followed by U+030C composes canonically to U+01F0
  (UnicodeData: \<open>01F0;LATIN SMALL LETTER J WITH CARON;...;006A 030C\<close>). Nothing is
  claimed about \<open>basic_latin\<close> on other strings.
\<close>

definition basic_latin :: unicode where
  "basic_latin =
     \<lparr> normalizeNFKC = (\<lambda>s. if s = [0x6A, 0x30C] then [0x1F0] else s),
       toLowerCase = map (\<lambda>c. if 0x41 \<le> c \<and> c \<le> 0x5A then c + 0x20 else c) \<rparr>"

text \<open>
  \<open>function norm(s){ if(!s) return ''; return
  s.toString().normalize('NFKC').toLowerCase().trim().replace(/\s+/g,' '); }\<close>
  A record field that is absent reaches \<open>norm\<close> as \<open>undefined\<close>, which takes the same
  branch as the empty string; \<open>or_empty\<close> is that reading of a field, and is also the
  source's \<open>(d.title || '')\<close>.
\<close>

definition or_empty :: "jsstring option \<Rightarrow> jsstring" where
  "or_empty v = (case v of None \<Rightarrow> [] | Some s \<Rightarrow> s)"

definition truthy :: "jsstring option \<Rightarrow> bool" where
  "truthy v \<longleftrightarrow> (case v of None \<Rightarrow> False | Some s \<Rightarrow> s \<noteq> [])"

definition norm_js :: "unicode \<Rightarrow> jsstring \<Rightarrow> jsstring" where
  "norm_js U s =
     (if s = [] then []
      else collapse_ws (trim (toLowerCase U (normalizeNFKC U s))))"

subsection \<open>decodeURIComponent\<close>

text \<open>
  ECMAScript's \<open>Decode\<close> with an empty set of preserved escapes. A \<open>%\<close> must be
  followed by two hexadecimal digits; a byte below 0x80 is the character itself; a
  lead byte announces a UTF-8 sequence of 2 to 4 bytes, each again written \<open>%XX\<close>,
  which must be well-formed UTF-8. Anything else throws \<open>URIError\<close>.
\<close>

datatype error = URIError

definition hexval :: "nat \<Rightarrow> nat option" where
  "hexval c =
     (if 0x30 \<le> c \<and> c \<le> 0x39 then Some (c - 0x30)
      else if 0x41 \<le> c \<and> c \<le> 0x46 then Some (c - 0x41 + 10)
      else if 0x61 \<le> c \<and> c \<le> 0x66 then Some (c - 0x61 + 10)
      else None)"

definition hex_byte :: "jsstring \<Rightarrow> nat option" where
  "hex_byte cs =
     (case cs of
        h1 # h2 # _ \<Rightarrow>
          (case hexval h1 of None \<Rightarrow> None
           | Some a \<Rightarrow> (case hexval h2 of None \<Rightarrow> None | Some b \<Rightarrow> Some (16 * a + b)))
      | _ \<Rightarrow> None)"

text \<open>The \<open>k\<close> continuation escapes \<open>%XX\<close> at the head of \<open>cs\<close>.\<close>

fun pct_bytes :: "nat \<Rightarrow> jsstring \<Rightarrow> nat list option" where
  "pct_bytes 0 cs = Some []"
| "pct_bytes (Suc k) cs =
     (case cs of
        [] \<Rightarrow> None
      | c # r \<Rightarrow>
          if c \<noteq> 0x25 then None
          else (case hex_byte r of None \<Rightarrow> None
                | Some b \<Rightarrow> map_option ((#) b) (pct_bytes k (drop 2 r))))"

text \<open>The code point of a well-formed UTF-8 sequence of 2 to 4 bytes.\<close>

definition utf8_code_point :: "nat list \<Rightarrow> nat option" where
  "utf8_code_point bs =
     (if \<exists>b \<in> set (tl bs). b < 0x80 \<or> 0xBF < b then None
      else (case bs of
        [b0, b1] \<Rightarrow>
          (let v = (b0 - 0xC0) * 64 + (b1 - 0x80) in if v < 0x80 then None else Some v)
      | [b0, b1, b2] \<Rightarrow>
          (let v = (b0 - 0xE0) * 4096 + (b1 - 0x80) * 64 + (b2 - 0x80)
           in if v < 0x800 \<or> (0xD800 \<le> v \<and> v \<le> 0xDFFF) then None else Some v)
      | [b0, b1, b2, b3] \<Rightarrow>
          (let v = (b0 - 0xF0) * 262144 + (b1 - 0x80) * 4096 + (b2 - 0x80) * 64 + (b3 - 0x80)
           in if v < 0x10000 \<or> 0x10FFFF < v then None else Some v)
      | _ \<Rightarrow> None))"

definition utf16_encode :: "nat \<Rightarrow> jsstring" where
  "utf16_encode v =
     (if v < 0x10000 then [v]
      else [0xD800 + (v - 0x10000) div 1024, 0xDC00 + (v - 0x10000) mod 1024])"

function decodeURIComponent :: "jsstring \<Rightarrow> error + jsstring" where
  "decodeURIComponent [] = Inr []"
| "decodeURIComponent (c # cs) =
     (if c \<noteq> 0x25 then
        (case decodeURIComponent cs of Inl e \<Rightarrow> Inl e | Inr r \<Rightarrow> Inr (c # r))
      else
        (case hex_byte cs of
           None \<Rightarrow> Inl URIError
         | Some b \<Rightarrow>
             if b < 0x80 then
               (case decodeURIComponent (drop 2 cs) of
                  Inl e \<Rightarrow> Inl e | Inr r \<Rightarrow> Inr (b # r))
             else if b < 0xC0 \<or> 0xF8 \<le> b then Inl URIError
             else
               (let n = (if b < 0xE0 then 2 else if b < 0xF0 then 3 else 4 :: nat) in
                case pct_bytes (n - 1) (drop 2 cs) of
                  None \<Rightarrow> Inl URIError
                | Some bs \<Rightarrow>
                    (case utf8_code_point (b # bs) of
                       None \<Rightarrow> Inl URIError
                     | Some v \<Rightarrow>
                         (case decodeURIComponent (drop (2 + 3 * (n - 1)) cs) of
                            Inl e \<Rightarrow> Inl e
                          | Inr r \<Rightarrow> Inr (utf16_encode v @ r))))))"
  by pat_completeness auto
termination
  by (relation "measure length") auto

section \<open>The download records and the viewer's record matcher\<close>

text \<open>
  One element of \<open>window.DOWNLOADS\<close>. Every field may be absent (\<open>None\<close>); the fields
  the modelled code reads are listed.
\<close>

record entry =
  filename :: "jsstring option"
  title :: "jsstring option"
  category :: "jsstring option"
  description :: "jsstring option"
  code_py :: "jsstring option"
  code_yaml :: "jsstring option"
  code_path :: "jsstring option"
  yaml_path :: "jsstring option"
  liens :: "jsstring option"

definition blank :: entry where
  "blank = \<lparr> filename = None, title = None, category = None, description = None,
     code_py = None, code_yaml = None, code_path = None, yaml_path = None, liens = None \<rparr>"

text \<open>
  \<open>p = Object.fromEntries(new URLSearchParams(location.search))\<close>: the two
  parameters the viewer reads, each absent or a string.
\<close>

record params =
  p_title :: "jsstring option"
  p_file :: "jsstring option"

text \<open>
  \<open>Array.prototype.find\<close> with a callback that may throw: the exception leaves the
  search at the first element whose test throws.
\<close>

fun find_js :: "('a \<Rightarrow> error + bool) \<Rightarrow> 'a list \<Rightarrow> error + 'a option" where
  "find_js P [] = Inr None"
| "find_js P (x # xs) =
     (case P x of
        Inl e \<Rightarrow> Inl e
      | Inr b \<Rightarrow> if b then Inr (Some x) else find_js P xs)"

text \<open>
  The \<open>if(p.title){...}\<close> block of \<open>findEntry\<close>: exact, decoded (inside
  \<open>try ... catch(e){}\<close>), normalised, normalised substring. \<open>None\<close> means the block
  falls through.
\<close>

definition title_block :: "unicode \<Rightarrow> params \<Rightarrow> entry list \<Rightarrow> entry option" where
  "title_block U p downloads =
     (if \<not> truthy (p_title p) then None
      else
        let q = or_empty (p_title p) in
        case find (\<lambda>d. or_empty (title d) = q) downloads of
          Some e \<Rightarrow> Some e
        | None \<Rightarrow>
            (case (case decodeURIComponent q of
                     Inl _ \<Rightarrow> None
                   | Inr dec \<Rightarrow> find (\<lambda>d. or_empty (title d) = dec) downloads) of
               Some e \<Rightarrow> Some e
             | None \<Rightarrow>
                 (let n = norm_js U q in
                  case find (\<lambda>d. norm_js U (or_empty (title d)) = n) downloads of
                    Some e \<Rightarrow> Some e
                  | None \<Rightarrow>
                      find (\<lambda>d. includes_js (norm_js U (or_empty (title d))) n) downloads)))"

text \<open>
  The first \<open>if(p.file){...}\<close> block. \<open>decodeURIComponent(p.file)\<close> is called in the
  callback, after \<open>||\<close>, with no \<open>try\<close> around it: it runs for each record whose
  file name differs from the raw parameter, and its exception leaves \<open>findEntry\<close>.
\<close>

definition file_block :: "unicode \<Rightarrow> params \<Rightarrow> entry list \<Rightarrow> error + entry option" where
  "file_block U p downloads =
     (if \<not> truthy (p_file p) then Inr None
      else
        let f = or_empty (p_file p) in
        case find_js (\<lambda>d. if or_empty (filename d) = f then Inr True
                          else (case decodeURIComponent f of
                                  Inl e \<Rightarrow> Inl e
                                | Inr dec \<Rightarrow> Inr (or_empty (filename d) = dec)))
               downloads of
          Inl e \<Rightarrow> Inl e
        | Inr (Some e) \<Rightarrow> Inr (Some e)
        | Inr None \<Rightarrow>
            (let nf = norm_js U f in
             Inr (find (\<lambda>d. norm_js U (or_empty (filename d)) = nf \<or>
                            includes_js (norm_js U (or_empty (filename d))) nf) downloads)))"

text \<open>The second \<open>if(p.file){...}\<close> block, over \<open>code_path\<close> and \<open>yaml_path\<close>.\<close>

definition path_block :: "unicode \<Rightarrow> params \<Rightarrow> entry list \<Rightarrow> entry option" where
  "path_block U p downloads =
     (if \<not> truthy (p_file p) then None
      else
        let nf = norm_js U (or_empty (p_file p)) in
        find (\<lambda>d. (truthy (code_path d) \<and> includes_js (norm_js U (or_empty (code_path d))) nf) \<or>
                   (truthy (yaml_path d) \<and> includes_js (norm_js U (or_empty (yaml_path d))) nf))
          downloads)"

text \<open>
  \<open>findEntry\<close> (the same text in both versions of the viewer): \<open>Inr None\<close> is the
  source's \<open>return null\<close>, \<open>Inl URIError\<close> an exception leaving the function.
\<close>

definition findEntry :: "unicode \<Rightarrow> params \<Rightarrow> entry list \<Rightarrow> error + entry option" where
  "findEntry U p downloads =
     (if downloads = [] then Inr None
      else
        case title_block U p downloads of
          Some e \<Rightarrow> Inr (Some e)
        | None \<Rightarrow>
            (case file_block U p downloads of
               Inl e \<Rightarrow> Inl e
             | Inr (Some e) \<Rightarrow> Inr (Some e)
             | Inr None \<Rightarrow> Inr (path_block U p downloads)))"


section \<open>The viewer page (the version with the redirect on \<open>liens\<close>)\<close>

text \<open>
  The elements of the page the script writes to, as text: \<open>location_href\<close> is \<open>None\<close>
  as long as \<open>window.location.href\<close> has not been assigned. Of the error markup only the
  text is kept (\<open>escapeHtml\<close> and the parser cancel out): the message of \<open>showError\<close>
  and the content of the appended \<open>pre\<close>. The download button, the key handlers, the
  page title and the clipboard buttons, which follow the two panes, are not modelled.
\<close>

record page =
  location_href :: "jsstring option"
  info_text :: jsstring
  error_text :: jsstring
  error_list :: jsstring
  code_title :: jsstring
  yaml_title :: jsstring
  code_box :: jsstring
  yaml_box :: jsstring
  raw_code_href :: jsstring
  raw_yaml_href :: jsstring

text \<open>\<open>Array.prototype.join\<close>\<close>

fun join :: "jsstring \<Rightarrow> jsstring list \<Rightarrow> jsstring" where
  "join sep [] = []"
| "join sep [x] = x"
| "join sep (x # y # ys) = x @ sep @ join sep (y # ys)"

text \<open>\<open>v || dflt\<close> on a field\<close>

definition or_else :: "jsstring option \<Rightarrow> jsstring \<Rightarrow> jsstring" where
  "or_else v dflt = (if truthy v then or_empty v else dflt)"

definition showError :: "jsstring \<Rightarrow> page \<Rightarrow> page" where
  "showError msg pg = pg\<lparr>error_text := msg, info_text := []\<rparr>"

definition msg_missing_param :: jsstring where
  "msg_missing_param =
     str ''Param'' @ [0xE8] @
     str ''tre manquant. Appeler viewer.html?title=Nom%20du%20module ou ?file=nom.zip''"

definition msg_no_entry :: jsstring where
  "msg_no_entry =
     str ''Aucune entr'' @ [0xE9] @
     str ''e correspondante dans downloads.js pour ce title/file. Titres disponibles list'' @
     [0xE9] @ str ''s ci-dessous.''"

definition msg_titles_available :: jsstring where
  "msg_titles_available =
     str ''Titres disponibles (console) '' @ [0x2014] @
     str '' copier un title exact ou utiliser ?file=...''"

text \<open>The \<open>if(!entry){...}\<close> branch: the banner and the list of all records.\<close>

definition no_match :: "entry list \<Rightarrow> page \<Rightarrow> page" where
  "no_match downloads pg =
     (let list = join [0x0A]
            (map (\<lambda>d. [0x2022] @ str '' title='' @ [0x22] @ or_empty (title d) @ [0x22] @
                       str ''  filename='' @ [0x22] @ or_empty (filename d) @ [0x22])
               downloads);
          pg1 = showError msg_no_entry pg;
          pg2 = pg1\<lparr>info_text := msg_titles_available\<rparr>
      in pg2\<lparr>error_list := list\<rparr>)"

text \<open>The code and YAML panes, filled from the matched record.\<close>

definition populate :: "entry \<Rightarrow> page \<Rightarrow> page" where
  "populate entry pg =
     (let pg1 = pg\<lparr>code_title := str ''Code Python '' @ [0x2014, 0x20] @
                                   or_else (title entry) (str ''Code''),
                    yaml_title := str ''YAML / Config '' @ [0x2014, 0x20] @
                                   or_else (title entry) (str ''Config''),
                    info_text := []\<rparr>;
          pg2 =
            (if truthy (code_py entry) then
               pg1\<lparr>code_box := or_empty (code_py entry),
                    raw_code_href := or_else (code_path entry) (str ''#'')\<rparr>
             else if truthy (code_path entry) then
               pg1\<lparr>code_box := str ''Pas de code embarqu'' @ [0xE9] @
                                 str ''. Chemin brut : '' @ or_empty (code_path entry),
                    raw_code_href := or_empty (code_path entry)\<rparr>
             else
               pg1\<lparr>code_box := str ''Aucun code python embarqu'' @ [0xE9] @
                                 str '' ni path fourni.'',
                    raw_code_href := str ''#''\<rparr>)
      in
        if truthy (code_yaml entry) then
          pg2\<lparr>yaml_box := or_empty (code_yaml entry),
               raw_yaml_href := or_else (yaml_path entry) (str ''#'')\<rparr>
        else if truthy (yaml_path entry) then
          pg2\<lparr>yaml_box := str ''Pas de YAML embarqu'' @ [0xE9] @
                            str ''. Chemin brut : '' @ or_empty (yaml_path entry),
               raw_yaml_href := or_empty (yaml_path entry)\<rparr>
        else
          pg2\<lparr>yaml_box := str ''Aucun YAML embarqu'' @ [0xE9] @ str '' ni path fourni.'',
               raw_yaml_href := str ''#''\<rparr>)"

text \<open>
  The body of the viewer script from the parameter check on. \<open>Inl\<close>: the exception of
  \<open>findEntry\<close> is not caught and ends the script.
\<close>

definition viewer :: "unicode \<Rightarrow> params \<Rightarrow> entry list \<Rightarrow> page \<Rightarrow> error + page" where
  "viewer U p downloads pg =
     (if \<not> truthy (p_title p) \<and> \<not> truthy (p_file p) then
        Inr (pg\<lparr>info_text := msg_missing_param\<rparr>)
      else
        case findEntry U p downloads of
          Inl e \<Rightarrow> Inl e
        | Inr None \<Rightarrow> Inr (no_match downloads pg)
        | Inr (Some entry) \<Rightarrow>
            if trim (or_empty (liens entry)) \<noteq> [] then
              Inr (pg\<lparr>location_href := liens entry\<rparr>)
            else Inr (populate entry pg))"

section \<open>The catalogue page: grouping and search\<close>

definition categories :: "jsstring list" where
  "categories = [str ''algorithme'', str ''bibliographie'', str ''autre'']"

text \<open>\<open>const grouped = { algorithme: [], bibliographie: [], autre: [] }\<close>\<close>

record grouped =
  algorithme :: "entry list"
  bibliographie :: "entry list"
  autre :: "entry list"

text \<open>\<open>grouped[key].push(it)\<close> for a \<open>key\<close> of \<open>categories\<close>\<close>

definition push_to :: "jsstring \<Rightarrow> entry \<Rightarrow> grouped \<Rightarrow> grouped" where
  "push_to key it g =
     (if key = str ''algorithme'' then g\<lparr>algorithme := algorithme g @ [it]\<rparr>
      else if key = str ''bibliographie'' then g\<lparr>bibliographie := bibliographie g @ [it]\<rparr>
      else g\<lparr>autre := autre g @ [it]\<rparr>)"

text \<open>The body of \<open>filtered.forEach(it => {...})\<close> in \<open>render\<close>.\<close>

definition group_key :: "unicode \<Rightarrow> entry \<Rightarrow> jsstring" where
  "group_key U it =
     (let cat = trim (toLowerCase U (or_else (category it) (str ''autre'')));
          cat = (if cat = str ''algorithm'' \<or> cat = str ''algo'' then str ''algorithme'' else cat);
          cat = (if cat = str ''biblio'' then str ''bibliographie'' else cat)
      in if cat \<in> set categories then cat else str ''autre'')"

text \<open>
  The first half of \<open>render(filtered)\<close> (identical in both versions of the script): the
  three lists, from which the second half fills the three containers, one card per
  element in list order.
\<close>

definition render_grouped :: "unicode \<Rightarrow> entry list \<Rightarrow> grouped" where
  "render_grouped U filtered =
     foldl (\<lambda>g it. push_to (group_key U it) it g)
       \<lparr>algorithme = [], bibliographie = [], autre = []\<rparr> filtered"

text \<open>\<open>filterItems(q)\<close> over \<open>items = window.DOWNLOADS || []\<close>\<close>

definition filterItems :: "unicode \<Rightarrow> entry list \<Rightarrow> jsstring \<Rightarrow> entry list" where
  "filterItems U items q =
     (if q = [] then items
      else
        let q' = toLowerCase U q in
        filter (\<lambda>it. includes_js
                        (toLowerCase U (or_empty (title it) @ [0x20] @ or_empty (filename it) @
                                        [0x20] @ or_empty (description it))) q')
          items)"


section \<open>The .s2p converter\<close>

subsection \<open>Numbers\<close>

text \<open>
  A JavaScript number is a finite value, one of the two infinities, or NaN. Finite
  values are modelled as exact reals: rounding to binary64, overflow to an infinity and
  the sign of zero are left out. The branches taken below on NaN, on zero and on the
  infinities are the ones IEEE 754 arithmetic takes.
\<close>

datatype jsnum = Fin real | PInf | NInf | NaN

definition isNaN :: "jsnum \<Rightarrow> bool" where
  "isNaN x \<longleftrightarrow> x = NaN"

definition isDigit :: "nat \<Rightarrow> bool" where
  "isDigit c \<longleftrightarrow> 0x30 \<le> c \<and> c \<le> 0x39"

definition digits_value :: "jsstring \<Rightarrow> nat" where
  "digits_value ds = foldl (\<lambda>a c. 10 * a + (c - 0x30)) 0 ds"

text \<open>The digits of \<open>0x..\<close>, \<open>0o..\<close>, \<open>0b..\<close>: at least one, all below the radix.\<close>

definition radix_value :: "nat \<Rightarrow> jsstring \<Rightarrow> nat option" where
  "radix_value r ds =
     (if ds \<noteq> [] \<and> (\<forall>c \<in> set ds. case hexval c of None \<Rightarrow> False | Some v \<Rightarrow> v < r)
      then Some (foldl (\<lambda>a c. r * a + the (hexval c)) 0 ds)
      else None)"

text \<open>\<open>SignedInteger\<close> of an exponent part: an optional sign and at least one digit.\<close>

definition signed_integer :: "jsstring \<Rightarrow> int option" where
  "signed_integer t =
     (let (neg, ds) = (case t of
                         [] \<Rightarrow> (False, [])
                       | c # r \<Rightarrow> if c = 0x2D then (True, r)
                                  else if c = 0x2B then (False, r) else (False, t))
      in if ds \<noteq> [] \<and> (\<forall>c \<in> set ds. isDigit c)
         then Some (if neg then - int (digits_value ds) else int (digits_value ds))
         else None)"

definition exponent_part :: "jsstring \<Rightarrow> int option" where
  "exponent_part r =
     (case r of
        [] \<Rightarrow> Some 0
      | c # t \<Rightarrow> if c = 0x65 \<or> c = 0x45 then signed_integer t else None)"

text \<open>
  \<open>StrUnsignedDecimalLiteral\<close> other than \<open>Infinity\<close>: digits, an optional point and
  digits, an optional exponent; at least one digit before or after the point.
\<close>

definition unsigned_decimal :: "jsstring \<Rightarrow> real option" where
  "unsigned_decimal s =
     (let ip = takeWhile isDigit s;
          r1 = dropWhile isDigit s;
          (fp, r2) = (case r1 of
                        [] \<Rightarrow> ([], [])
                      | c # t \<Rightarrow> if c = 0x2E then (takeWhile isDigit t, dropWhile isDigit t)
                                 else ([], r1))
      in if ip = [] \<and> fp = [] then None
         else (case exponent_part r2 of
                 None \<Rightarrow> None
               | Some e \<Rightarrow>
                   (let m = real (digits_value (ip @ fp)); k = e - int (length fp)
                    in Some (if 0 \<le> k then m * 10 ^ nat k else m / 10 ^ nat (- k)))))"

text \<open>
  \<open>Number(s)\<close> on a string (ECMAScript's \<open>StringToNumber\<close>): white space is stripped,
  the empty string is 0, then a radix literal without sign, or a signed decimal literal
  or \<open>Infinity\<close>; anything else is NaN.
\<close>

definition Number :: "jsstring \<Rightarrow> jsnum" where
  "Number s =
     (let t = trim s in
      if t = [] then Fin 0
      else if startsWith t (str ''0x'') \<or> startsWith t (str ''0X'') then
        (case radix_value 16 (drop 2 t) of None \<Rightarrow> NaN | Some v \<Rightarrow> Fin (real v))
      else if startsWith t (str ''0o'') \<or> startsWith t (str ''0O'') then
        (case radix_value 8 (drop 2 t) of None \<Rightarrow> NaN | Some v \<Rightarrow> Fin (real v))
      else if startsWith t (str ''0b'') \<or> startsWith t (str ''0B'') then
        (case radix_value 2 (drop 2 t) of None \<Rightarrow> NaN | Some v \<Rightarrow> Fin (real v))
      else
        let (neg, u) = (if startsWith t (str ''-'') then (True, drop 1 t)
                        else if startsWith t (str ''+'') then (False, drop 1 t)
                        else (False, t))
        in if u = str ''Infinity'' then (if neg then NInf else PInf)
           else (case unsigned_decimal u of
                   None \<Rightarrow> NaN
                 | Some v \<Rightarrow> Fin (if neg then - v else v)))"

text \<open>\<open>Math.hypot(a, b)\<close>, \<open>Math.log10(x)\<close>, \<open>20 * x\<close>, \<open>Math.round(x)\<close>\<close>

definition hypot :: "jsnum \<Rightarrow> jsnum \<Rightarrow> jsnum" where
  "hypot a b =
     (if a = PInf \<or> a = NInf \<or> b = PInf \<or> b = NInf then PInf
      else (case (a, b) of
              (Fin x, Fin y) \<Rightarrow> Fin (sqrt (x * x + y * y))
            | _ \<Rightarrow> NaN))"

definition log10_js :: "jsnum \<Rightarrow> jsnum" where
  "log10_js a =
     (case a of
        Fin x \<Rightarrow> if x < 0 then NaN else if x = 0 then NInf else Fin (log 10 x)
      | PInf \<Rightarrow> PInf
      | NInf \<Rightarrow> NaN
      | NaN \<Rightarrow> NaN)"

definition times20 :: "jsnum \<Rightarrow> jsnum" where
  "times20 a = (case a of Fin x \<Rightarrow> Fin (20 * x) | PInf \<Rightarrow> PInf | NInf \<Rightarrow> NInf | NaN \<Rightarrow> NaN)"

definition round_js :: "jsnum \<Rightarrow> jsnum" where
  "round_js a = (case a of Fin x \<Rightarrow> Fin (of_int \<lfloor>x + 1 / 2\<rfloor>) | _ \<Rightarrow> a)"

text \<open>Decimal digits of a natural number.\<close>

function digits_of :: "nat \<Rightarrow> jsstring" where
  "digits_of n = (if n < 10 then [0x30 + n] else digits_of (n div 10) @ [0x30 + n mod 10])"
  by pat_completeness auto
termination
  by (relation "measure id") auto

text \<open>
  A number in a template literal (\<open>Number::toString\<close>). The conversion is applied to
  results of \<open>Math.round\<close> only; for a finite value the model writes the integer part in
  decimal, which is the source's result for integers of magnitude below \<open>10^21\<close>.
\<close>

definition num_to_string :: "jsnum \<Rightarrow> jsstring" where
  "num_to_string a =
     (case a of
        Fin x \<Rightarrow> (if x < 0 then str ''-'' else []) @ digits_of (nat \<lfloor>\<bar>x\<bar>\<rfloor>)
      | PInf \<Rightarrow> str ''Infinity''
      | NInf \<Rightarrow> str ''-Infinity''
      | NaN \<Rightarrow> str ''NaN'')"

text \<open>
  \<open>x.toFixed(2)\<close>: a value that is not finite is written as by \<open>toString\<close>; a finite
  one is rounded to the nearest hundredth (the larger one on a tie, on the absolute
  value) and written with two decimals (magnitudes from \<open>10^21\<close> on, which the source
  writes in exponent notation, are not distinguished).
\<close>

definition toFixed2 :: "jsnum \<Rightarrow> jsstring" where
  "toFixed2 a =
     (case a of
        Fin x \<Rightarrow>
          (let n = nat \<lfloor>\<bar>x\<bar> * 100 + 1 / 2\<rfloor>
           in (if x < 0 then str ''-'' else []) @ digits_of (n div 100) @ str ''.'' @
              [0x30 + (n mod 100) div 10, 0x30 + n mod 10])
      | PInf \<Rightarrow> str ''Infinity''
      | NInf \<Rightarrow> str ''-Infinity''
      | NaN \<Rightarrow> str ''NaN'')"

subsection \<open>Lines and tokens\<close>

text \<open>\<open>text.split(/\r?\n/)\<close>\<close>

fun split_lines :: "jsstring \<Rightarrow> jsstring list" where
  "split_lines [] = [[]]"
| "split_lines (c # cs) =
     (if c = 0x0A then [] # split_lines cs
      else if c = 0x0D \<and> take 1 cs = [0x0A] then [] # split_lines (drop 1 cs)
      else (case split_lines cs of [] \<Rightarrow> [[c]] | l # ls \<Rightarrow> (c # l) # ls))"

text \<open>\<open>line.split(/\s+/)\<close>\<close>

function split_ws :: "jsstring \<Rightarrow> jsstring list" where
  "split_ws [] = [[]]"
| "split_ws (c # cs) =
     (if isWhiteSpace c then [] # split_ws (dropWhile isWhiteSpace cs)
      else (case split_ws cs of [] \<Rightarrow> [[c]] | l # ls \<Rightarrow> (c # l) # ls))"
  by pat_completeness auto
termination
  by (relation "measure length") (auto simp: less_Suc_eq_le length_dropWhile_le)

subsection \<open>parseS2P and buildDat\<close>

record s2p =
  freqs :: "jsnum list"
  s11 :: "jsnum list"
  s21 :: "jsnum list"

text \<open>
  One turn of the \<open>for(let line of lines)\<close> loop; each \<open>continue\<close> returns the
  accumulators unchanged.
\<close>

definition parse_step :: "s2p \<Rightarrow> jsstring \<Rightarrow> s2p" where
  "parse_step acc line0 =
     (let line = trim line0 in
      if line = [] \<or> startsWith line (str ''!'') \<or> startsWith line (str ''#'') then acc
      else
        let p = split_ws line in
        if length p < 5 then acc
        else
          let f = Number (p ! 0); s11_re = Number (p ! 1); s11_im = Number (p ! 2);
              s21_re = Number (p ! 3); s21_im = Number (p ! 4)
          in if list_ex isNaN [f, s11_re, s11_im, s21_re, s21_im] then acc
             else acc\<lparr>freqs := freqs acc @ [f],
                      s11 := s11 acc @ [times20 (log10_js (hypot s11_re s11_im))],
                      s21 := s21 acc @ [times20 (log10_js (hypot s21_re s21_im))]\<rparr>)"

definition parseS2P :: "jsstring \<Rightarrow> s2p" where
  "parseS2P text = foldl parse_step \<lparr>freqs = [], s11 = [], s21 = []\<rparr> (split_lines text)"

text \<open>
  \<open>buildDat(freqs, vals, label)\<close>. \<open>vals[i]\<close> beyond the end of \<open>vals\<close> is
  \<open>undefined\<close>, and calling \<open>toFixed\<close> on it throws a \<open>TypeError\<close>.
\<close>

datatype conv_error = TypeError

fun dat_rows :: "jsnum list \<Rightarrow> jsnum list \<Rightarrow> conv_error + jsstring list" where
  "dat_rows [] vals = Inr []"
| "dat_rows (f # fs) [] = Inl TypeError"
| "dat_rows (f # fs) (v # vs) =
     (case dat_rows fs vs of
        Inl e \<Rightarrow> Inl e
      | Inr rows \<Rightarrow> Inr ((num_to_string (round_js f) @ [0x09] @ toFixed2 v) # rows))"

definition buildDat :: "jsnum list \<Rightarrow> jsnum list \<Rightarrow> jsstring \<Rightarrow> conv_error + jsstring" where
  "buildDat fs vals label =
     (case dat_rows fs vals of
        Inl e \<Rightarrow> Inl e
      | Inr rows \<Rightarrow> Inr (join [0x0A] ((str ''# Frequency(Hz)'' @ [0x09] @ label) # rows)))"

subsection \<open>The convert button\<close>

text \<open>The anchor made by \<open>makeDownload(text, name)\<close>: the blob's text and the file name.\<close>

record download_link =
  blob_text :: jsstring
  download :: jsstring
  link_text :: jsstring

definition makeDownload :: "jsstring \<Rightarrow> jsstring \<Rightarrow> download_link" where
  "makeDownload text name =
     \<lparr> blob_text = text, download = name,
       link_text = str ''T'' @ [0xE9] @ str ''l'' @ [0xE9] @ str ''charger '' @ name \<rparr>"

record conv_ui =
  generated_links :: "download_link list"
  links_display :: jsstring
  status :: jsstring

definition msg_choose_file :: jsstring where
  "msg_choose_file = str ''Choisis un fichier .s2p avant de convertir.''"

definition msg_no_data :: jsstring where
  "msg_no_data =
     str ''Aucune donn'' @ [0xE9] @ str ''e valide trouv'' @ [0xE9] @ str ''e.''"

definition msg_ok :: "nat \<Rightarrow> jsstring" where
  "msg_ok n =
     str ''Conversion OK '' @ [0x2014, 0x20] @ digits_of n @ str '' points g'' @ [0xE9] @
     str ''n'' @ [0xE9] @ str ''r'' @ [0xE9] @ str ''s.''"

text \<open>
  \<open>'Erreur : ' + e\<close>; the text of the exception after its name depends on the host and
  is left out.
\<close>

definition msg_error :: "conv_error \<Rightarrow> jsstring" where
  "msg_error e = str ''Erreur : TypeError''"

text \<open>\<open>f.name.replace(/\.s2p$/i, '')\<close>\<close>

definition strip_s2p :: "jsstring \<Rightarrow> jsstring" where
  "strip_s2p name =
     (let n = length name in
      if 4 \<le> n \<and> name ! (n - 4) = 0x2E \<and> name ! (n - 3) \<in> {0x73, 0x53} \<and>
         name ! (n - 2) = 0x32 \<and> name ! (n - 1) \<in> {0x70, 0x50}
      then take (n - 4) name else name)"

text \<open>
  The click handler together with the \<open>onload\<close> callback it installs. The argument is
  the selected file, if any, as its name and the text \<open>readAsText\<close> delivers.
\<close>

definition convert_click :: "(jsstring \<times> jsstring) option \<Rightarrow> conv_ui \<Rightarrow> conv_ui" where
  "convert_click file ui =
     (let ui0 = ui\<lparr>generated_links := [], links_display := str ''none'', status := []\<rparr> in
      case file of
        None \<Rightarrow> ui0\<lparr>status := msg_choose_file\<rparr>
      | Some (name, text) \<Rightarrow>
          (let r = parseS2P text in
           if freqs r = [] then ui0\<lparr>status := msg_no_data\<rparr>
           else
             let base = strip_s2p name in
             case buildDat (freqs r) (s11 r) (str ''S11(dB)'') of
               Inl e \<Rightarrow> ui0\<lparr>status := msg_error e\<rparr>
             | Inr t11 \<Rightarrow>
                 (let ui1 = ui0\<lparr>generated_links :=
                                   [makeDownload t11 (base @ str ''_S11.dat'')]\<rparr> in
                  case buildDat (freqs r) (s21 r) (str ''S21(dB)'') of
                    Inl e \<Rightarrow> ui1\<lparr>status := msg_error e\<rparr>
                  | Inr t21 \<Rightarrow>
                      ui1\<lparr>generated_links :=
                             generated_links ui1 @ [makeDownload t21 (base @ str ''_S21.dat'')],
                           links_display := str ''block'',
                           status := msg_ok (length (freqs r))\<rparr>)))"


section \<open>Notions used to state the properties\<close>

text \<open>
  The matcher as the specification words it: an ordered list of tiers, tried in
  sequence, the first record in list order of the first tier that has one.
\<close>

fun first_match :: "('a \<Rightarrow> bool) list \<Rightarrow> 'a list \<Rightarrow> 'a option" where
  "first_match [] L = None"
| "first_match (t # ts) L = (case find t L of Some e \<Rightarrow> Some e | None \<Rightarrow> first_match ts L)"

text \<open>
  The four tiers of a title query \<open>Q\<close>: exact, decoded (no record satisfies it when
  decoding fails), normalised equality, normalised substring.
\<close>

definition title_tiers :: "unicode \<Rightarrow> jsstring \<Rightarrow> (entry \<Rightarrow> bool) list" where
  "title_tiers U Q =
     [\<lambda>d. or_empty (title d) = Q,
      \<lambda>d. decodeURIComponent Q = Inr (or_empty (title d)),
      \<lambda>d. norm_js U (or_empty (title d)) = norm_js U Q,
      \<lambda>d. includes_js (norm_js U (or_empty (title d))) (norm_js U Q)]"

text \<open>No white space at either end.\<close>

definition trimmed :: "jsstring \<Rightarrow> bool" where
  "trimmed s \<longleftrightarrow> s = [] \<or> (\<not> isWhiteSpace (hd s) \<and> \<not> isWhiteSpace (last s))"

text \<open>White space occurs only as a single space that another character follows.\<close>

fun single_spaced :: "jsstring \<Rightarrow> bool" where
  "single_spaced [] \<longleftrightarrow> True"
| "single_spaced (c # cs) \<longleftrightarrow>
     (if isWhiteSpace c then c = 0x20 \<and> cs \<noteq> [] \<and> \<not> isWhiteSpace (hd cs) else True) \<and>
     single_spaced cs"

text \<open>
  The category of a record as \<open>render\<close> reads it: \<open>'autre'\<close> when the field is absent
  or empty, lowercased, trimmed.
\<close>

definition lowered_category :: "unicode \<Rightarrow> entry \<Rightarrow> jsstring" where
  "lowered_category U it = trim (toLowerCase U (or_else (category it) (str ''autre'')))"

text \<open>
  A line of the converter's input that is empty, begins with \<open>#\<close> or \<open>!\<close>, has fewer
  than 5 tokens, or has one of its first 5 tokens for which \<open>Number\<close> is NaN.
\<close>

definition malformed_line :: "jsstring \<Rightarrow> bool" where
  "malformed_line l \<longleftrightarrow>
     l = [] \<or> startsWith l (str ''#'') \<or> startsWith l (str ''!'') \<or>
     length (split_ws (trim l)) < 5 \<or>
     (\<exists>t \<in> set (take 5 (split_ws (trim l))). isNaN (Number t))"

text \<open>
  Strings of ASCII code units, and what the standard fixes for the two Unicode
  built-ins on them: NFKC leaves them unchanged, lowercasing maps \<open>A\<close>..\<open>Z\<close> to
  \<open>a\<close>..\<open>z\<close>.
\<close>

definition ascii :: "jsstring \<Rightarrow> bool" where
  "ascii s \<longleftrightarrow> (\<forall>c \<in> set s. c < 0x80)"

definition ascii_exact :: "unicode \<Rightarrow> bool" where
  "ascii_exact U \<longleftrightarrow>
     (\<forall>s. ascii s \<longrightarrow>
        normalizeNFKC U s = s \<and>
        toLowerCase U s = map (\<lambda>c. if 0x41 \<le> c \<and> c \<le> 0x5A then c + 0x20 else c) s)"

text \<open>Sample data for the concrete runs.\<close>

definition ex_catalog :: "entry list" where
  "ex_catalog =
     [blank\<lparr>title := Some (str ''abc def''), filename := Some (str ''0.zip'')\<rparr>,
      blank\<lparr>title := Some (str ''abc''), filename := Some (str ''1.zip'')\<rparr>,
      blank\<lparr>title := Some (str ''abc''), filename := Some (str ''2.zip'')\<rparr>]"

definition empty_page :: page where
  "empty_page =
     \<lparr> location_href = None, info_text = [], error_text = [], error_list = [],
       code_title = [], yaml_title = [], code_box = [], yaml_box = [],
       raw_code_href = [], raw_yaml_href = [] \<rparr>"


section \<open>The record matcher\<close>

subsection \<open>Searching a list\<close>

lemma find_first_index:
  "i < length L \<Longrightarrow> P (L ! i) \<Longrightarrow> \<forall>j<i. \<not> P (L ! j) \<Longrightarrow> find P L = Some (L ! i)"
  by (auto simp: find_Some_iff)

lemma find_no_match: "\<forall>d\<in>set L. \<not> P d \<Longrightarrow> find P L = None"
  by (simp add: find_None_iff)

lemma find_False: "find (\<lambda>d. False) L = None"
  by (induction L) auto

lemma first_match_earliest:
  "k < length ts \<Longrightarrow> i < length L \<Longrightarrow> (ts ! k) (L ! i) \<Longrightarrow> \<forall>j<i. \<not> (ts ! k) (L ! j) \<Longrightarrow>
   \<forall>k'<k. \<forall>d\<in>set L. \<not> (ts ! k') d \<Longrightarrow> first_match ts L = Some (L ! i)"
proof (induction ts arbitrary: k)
  case Nil
  then show ?case by simp
next
  case (Cons t ts)
  show ?case
  proof (cases k)
    case 0
    with Cons.prems have "find t L = Some (L ! i)"
      by (simp add: find_first_index)
    then show ?thesis by simp
  next
    case (Suc k0)
    with Cons.prems have "\<forall>d\<in>set L. \<not> t d" by auto
    then have none: "find t L = None" by (rule find_no_match)
    have "first_match ts L = Some (L ! i)"
    proof (rule Cons.IH)
      show "k0 < length ts" using Cons.prems(1) Suc by simp
      show "i < length L" by (rule Cons.prems(2))
      show "(ts ! k0) (L ! i)" using Cons.prems(3) Suc by simp
      show "\<forall>j<i. \<not> (ts ! k0) (L ! j)" using Cons.prems(4) Suc by simp
      show "\<forall>k'<k0. \<forall>d\<in>set L. \<not> (ts ! k') d"
      proof (intro allI impI)
        fix k' assume "k' < k0"
        then have "Suc k' < k" using Suc by simp
        with Cons.prems(5) have "\<forall>d\<in>set L. \<not> ((t # ts) ! Suc k') d" by blast
        then show "\<forall>d\<in>set L. \<not> (ts ! k') d" by simp
      qed
    qed
    with none show ?thesis by simp
  qed
qed

lemma includes_js_Nil: "includes_js s []"
  by (cases s) (simp_all add: startsWith_def)

subsection \<open>The title block is the tiered search\<close>

lemma decoded_tier:
  "(case decodeURIComponent Q of Inl _ \<Rightarrow> None
    | Inr dec \<Rightarrow> find (\<lambda>d. or_empty (title d) = dec) L) =
   find (\<lambda>d. decodeURIComponent Q = Inr (or_empty (title d))) L"
proof (cases "decodeURIComponent Q")
  case (Inl e)
  then show ?thesis by (simp add: find_False)
next
  case (Inr dec)
  have "find (\<lambda>d. or_empty (title d) = dec) L = find (\<lambda>d. dec = or_empty (title d)) L"
    by (rule find_cong) auto
  with Inr show ?thesis by simp
qed

lemma title_block_first_match:
  "Q \<noteq> [] \<Longrightarrow>
   title_block U \<lparr>p_title = Some Q, p_file = F\<rparr> L = first_match (title_tiers U Q) L"
  unfolding title_block_def title_tiers_def
  by (simp add: truthy_def or_empty_def decoded_tier Let_def split: option.splits)

lemma findEntry_Some_truthy:
  "findEntry U p L = Inr (Some e) \<Longrightarrow> truthy (p_title p) \<or> truthy (p_file p)"
  by (auto simp: findEntry_def title_block_def file_block_def path_block_def split: if_splits)

text \<open>A query that has only a title never leaves \<open>findEntry\<close> by an exception.\<close>

lemma findEntry_title_only_returns:
  "\<not> truthy (p_file p) \<Longrightarrow> \<exists>r. findEntry U p L = Inr r"
  by (auto simp: findEntry_def file_block_def split: option.splits)

subsection \<open>Malformed percent-encoding in the file parameter\<close>

text \<open>
  C2 (the matcher never throws on undecodable input, for the title query and for the
  file query). The title block decodes inside \<open>try\<close>; the file block does not. With the
  file parameter \<open>%\<close> and a catalogue whose first record has another file name, the
  search calls \<open>decodeURIComponent('%')\<close> and its \<open>URIError\<close> leaves \<open>findEntry\<close>.
\<close>

theorem findEntry_file_malformed_throws:
  "findEntry U \<lparr>p_title = None, p_file = Some (str ''%'')\<rparr>
     [blank\<lparr>filename := Some (str ''a.zip'')\<rparr>] = Inl URIError"
  by (simp add: findEntry_def title_block_def file_block_def truthy_def or_empty_def
      str_def hex_byte_def blank_def)

subsection \<open>Tier precedence\<close>

text \<open>
  C3, as stated (for every title query \<open>Q\<close>, a record whose title is exactly \<open>Q\<close> is
  returned), fails for the empty query: \<open>if(p.title)\<close> skips the title block, so a
  record with the empty title is not returned for the parameters
  \<open>title=\<close>, \<open>file=x\<close>.
\<close>

theorem findEntry_empty_title_counterexample:
  "or_empty (title (blank\<lparr>title := Some []\<rparr>)) = [] \<and>
   findEntry basic_latin \<lparr>p_title = Some [], p_file = Some (str ''x'')\<rparr>
     [blank\<lparr>title := Some []\<rparr>] = Inr None"
  by (simp add: findEntry_def title_block_def file_block_def path_block_def truthy_def
      or_empty_def blank_def str_def norm_js_def basic_latin_def trim_def isWhiteSpace_def
      startsWith_def)

text \<open>
  C3, amended: for every record list \<open>L\<close> and every non-empty title query \<open>Q\<close>, the
  matcher returns the first record in list order (index \<open>i\<close>) of the earliest title
  tier (index \<open>k\<close>) that some record satisfies, whatever the file parameter \<open>F\<close> is.
  With \<open>k = 0\<close>: a record whose title is exactly \<open>Q\<close> wins, the first such one,
  whatever the later tiers would match.
\<close>

theorem findEntry_title_tier_precedence:
  assumes "Q \<noteq> []"
    and "k < length (title_tiers U Q)"
    and "i < length L"
    and "(title_tiers U Q ! k) (L ! i)"
    and "\<forall>j<i. \<not> (title_tiers U Q ! k) (L ! j)"
    and "\<forall>k'<k. \<forall>d\<in>set L. \<not> (title_tiers U Q ! k') d"
  shows "findEntry U \<lparr>p_title = Some Q, p_file = F\<rparr> L = Inr (Some (L ! i))"
proof -
  have "first_match (title_tiers U Q) L = Some (L ! i)"
    using assms(2-6) by (rule first_match_earliest)
  with assms(1) have "title_block U \<lparr>p_title = Some Q, p_file = F\<rparr> L = Some (L ! i)"
    by (simp add: title_block_first_match)
  moreover have "L \<noteq> []" using assms(3) by auto
  ultimately show ?thesis by (simp add: findEntry_def)
qed

text \<open>
  In \<open>ex_catalog\<close> the query \<open>abc\<close> is a substring of the first title and equal to the
  second and third: the second record is returned.
\<close>

theorem findEntry_title_tier_precedence_witness:
  "findEntry basic_latin \<lparr>p_title = Some (str ''abc''), p_file = None\<rparr> ex_catalog =
     Inr (Some (blank\<lparr>title := Some (str ''abc''), filename := Some (str ''1.zip'')\<rparr>))"
  using findEntry_title_tier_precedence
          [of "str ''abc''" 0 basic_latin 1 ex_catalog None]
  by (simp add: title_tiers_def ex_catalog_def or_empty_def str_def blank_def)

subsection \<open>A query that normalises to the empty string\<close>

text \<open>
  C10, as stated (a title query that normalises to the empty string and matches no
  earlier tier returns the first record), fails for the empty query, which normalises
  to the empty string but is not searched by title at all.
\<close>

theorem findEntry_empty_query_no_match:
  "norm_js basic_latin [] = [] \<and>
   findEntry basic_latin \<lparr>p_title = Some [], p_file = Some (str ''x'')\<rparr>
     [blank\<lparr>title := Some (str ''abc'')\<rparr>] = Inr None"
  by (simp add: findEntry_def title_block_def file_block_def path_block_def truthy_def
      or_empty_def blank_def str_def norm_js_def basic_latin_def trim_def isWhiteSpace_def
      startsWith_def)

text \<open>
  C10, amended: for a non-empty record list and a non-empty title query \<open>Q\<close> that
  normalises to the empty string (white space only, for instance), when no record
  satisfies one of the three earlier tiers, every record satisfies the
  normalised-substring tier and the matcher returns the first record of the list.
\<close>

theorem findEntry_blank_title_first:
  assumes "Q \<noteq> []" and "norm_js U Q = []"
    and "\<forall>d\<in>set (d0 # ds). or_empty (title d) \<noteq> Q"
    and "\<forall>d\<in>set (d0 # ds). decodeURIComponent Q \<noteq> Inr (or_empty (title d))"
    and "\<forall>d\<in>set (d0 # ds). norm_js U (or_empty (title d)) \<noteq> norm_js U Q"
  shows "(\<forall>d\<in>set (d0 # ds). includes_js (norm_js U (or_empty (title d))) (norm_js U Q)) \<and>
         findEntry U \<lparr>p_title = Some Q, p_file = F\<rparr> (d0 # ds) = Inr (Some d0)"
proof -
  have t1: "find (\<lambda>d. or_empty (title d) = Q) (d0 # ds) = None"
    using assms(3) by (intro find_no_match)
  have t2: "find (\<lambda>d. decodeURIComponent Q = Inr (or_empty (title d))) (d0 # ds) = None"
    using assms(4) by (intro find_no_match)
  have t3: "find (\<lambda>d. norm_js U (or_empty (title d)) = norm_js U Q) (d0 # ds) = None"
    using assms(5) by (intro find_no_match)
  have t4: "find (\<lambda>d. includes_js (norm_js U (or_empty (title d))) (norm_js U Q)) (d0 # ds) =
      Some d0"
    using assms(2) by (simp add: includes_js_Nil)
  have "first_match (title_tiers U Q) (d0 # ds) = Some d0"
    unfolding title_tiers_def first_match.simps t1 t2 t3 t4 by simp
  with assms(1) have "title_block U \<lparr>p_title = Some Q, p_file = F\<rparr> (d0 # ds) = Some d0"
    by (simp add: title_block_first_match)
  then have "findEntry U \<lparr>p_title = Some Q, p_file = F\<rparr> (d0 # ds) = Inr (Some d0)"
    by (simp add: findEntry_def)
  then show ?thesis using assms(2) by (simp add: includes_js_Nil)
qed

theorem findEntry_blank_title_first_witness:
  "findEntry basic_latin \<lparr>p_title = Some (str ''  ''), p_file = None\<rparr>
     [blank\<lparr>title := Some (str ''Alpha'')\<rparr>, blank\<lparr>title := Some (str ''Beta'')\<rparr>] =
   Inr (Some (blank\<lparr>title := Some (str ''Alpha'')\<rparr>))"
proof -
  have n: "norm_js basic_latin (str ''  '') = []"
    by (simp add: norm_js_def basic_latin_def trim_def isWhiteSpace_def str_def)
  have d: "decodeURIComponent (str ''  '') = Inr (str ''  '')"
    by (simp add: str_def)
  have a: "norm_js basic_latin (str ''Alpha'') \<noteq> []"
    by (simp add: norm_js_def basic_latin_def trim_def isWhiteSpace_def str_def)
  have b: "norm_js basic_latin (str ''Beta'') \<noteq> []"
    by (simp add: norm_js_def basic_latin_def trim_def isWhiteSpace_def str_def)
  have s: "str ''  '' \<noteq> str ''Alpha''" "str ''  '' \<noteq> str ''Beta''" "str ''  '' \<noteq> []"
    "str ''Alpha'' \<noteq> str ''  ''" "str ''Beta'' \<noteq> str ''  ''"
    by (simp_all add: str_def)
  show ?thesis
    using findEntry_blank_title_first
            [of "str ''  ''" basic_latin "blank\<lparr>title := Some (str ''Alpha'')\<rparr>"
                "[blank\<lparr>title := Some (str ''Beta'')\<rparr>]" None]
    by (simp add: n d a b s or_empty_def blank_def)
qed

section \<open>The redirect of the viewer\<close>

text \<open>
  C4: when the matched record has a \<open>liens\<close> field that is not empty after trimming,
  the viewer assigns that field to \<open>window.location.href\<close> and returns: the page is
  otherwise as it was, so neither pane nor their titles and links receive content.
\<close>

theorem viewer_redirects_on_liens:
  assumes "findEntry U p downloads = Inr (Some entry)"
    and "liens entry = Some l"
    and "trim l \<noteq> []"
  shows "viewer U p downloads pg = Inr (pg\<lparr>location_href := Some l\<rparr>)"
proof -
  from assms(1) have "truthy (p_title p) \<or> truthy (p_file p)" by (rule findEntry_Some_truthy)
  with assms show ?thesis by (auto simp: viewer_def or_empty_def)
qed

theorem viewer_redirects_on_liens_witness:
  "viewer basic_latin \<lparr>p_title = Some (str ''Rapport''), p_file = None\<rparr>
     [blank\<lparr>title := Some (str ''Autre'')\<rparr>,
      blank\<lparr>title := Some (str ''Rapport''), liens := Some (str ''https://example.org/r.html''),
            code_py := Some (str ''print(1)'')\<rparr>]
     empty_page =
   Inr (empty_page\<lparr>location_href := Some (str ''https://example.org/r.html'')\<rparr>)"
proof -
  have f: "findEntry basic_latin \<lparr>p_title = Some (str ''Rapport''), p_file = None\<rparr>
     [blank\<lparr>title := Some (str ''Autre'')\<rparr>,
      blank\<lparr>title := Some (str ''Rapport''), liens := Some (str ''https://example.org/r.html''),
            code_py := Some (str ''print(1)'')\<rparr>] =
     Inr (Some (blank\<lparr>title := Some (str ''Rapport''),
            liens := Some (str ''https://example.org/r.html''),
            code_py := Some (str ''print(1)'')\<rparr>))"
    by (simp add: findEntry_def title_block_def truthy_def or_empty_def blank_def str_def)
  have t: "trim (str ''https://example.org/r.html'') \<noteq> []"
    by (simp add: trim_def isWhiteSpace_def str_def)
  show ?thesis
    by (rule viewer_redirects_on_liens[OF f _ t]) simp
qed


section \<open>Grouping and search on the catalogue page\<close>

lemma group_key_cases:
  "group_key U it =
     (if lowered_category U it \<in> {str ''algorithme'', str ''algorithm'', str ''algo''}
      then str ''algorithme''
      else if lowered_category U it \<in> {str ''bibliographie'', str ''biblio''}
      then str ''bibliographie'' else str ''autre'')"
  by (simp add: group_key_def lowered_category_def categories_def Let_def str_def)

lemma foldl_push_to:
  "foldl (\<lambda>g it. push_to (k it) it g) g0 L =
     \<lparr> algorithme = algorithme g0 @ filter (\<lambda>it. k it = str ''algorithme'') L,
       bibliographie = bibliographie g0 @
          filter (\<lambda>it. k it \<noteq> str ''algorithme'' \<and> k it = str ''bibliographie'') L,
       autre = autre g0 @
          filter (\<lambda>it. k it \<noteq> str ''algorithme'' \<and> k it \<noteq> str ''bibliographie'') L \<rparr>"
proof (induction L arbitrary: g0)
  case Nil
  then show ?case by simp
next
  case (Cons it L)
  show ?case
    unfolding foldl_Cons Cons.IH by (simp add: push_to_def)
qed

lemma mset_three_filters:
  "mset (filter P L @ filter (\<lambda>x. \<not> P x \<and> Q x) L @ filter (\<lambda>x. \<not> P x \<and> \<not> Q x) L) = mset L"
  by (induction L) auto

text \<open>
  C5: the three lists of \<open>render\<close> are the sublists, in source order, of the records
  whose lowercased and trimmed category is \<open>algorithme\<close>, \<open>algorithm\<close> or \<open>algo\<close>; is
  \<open>bibliographie\<close> or \<open>biblio\<close>; is anything else. Together they hold every record
  exactly once. A record without category is in the third list (given that
  lowercasing leaves \<open>autre\<close> unchanged, as it does).
\<close>

theorem render_grouped_partition:
  "algorithme (render_grouped U L) =
     filter (\<lambda>it. lowered_category U it \<in> {str ''algorithme'', str ''algorithm'', str ''algo''}) L \<and>
   bibliographie (render_grouped U L) =
     filter (\<lambda>it. lowered_category U it \<in> {str ''bibliographie'', str ''biblio''}) L \<and>
   autre (render_grouped U L) =
     filter (\<lambda>it. lowered_category U it \<notin>
        {str ''algorithme'', str ''algorithm'', str ''algo'', str ''bibliographie'', str ''biblio''}) L \<and>
   mset (algorithme (render_grouped U L) @ bibliographie (render_grouped U L) @
         autre (render_grouped U L)) = mset L \<and>
   (toLowerCase U (str ''autre'') = str ''autre'' \<longrightarrow>
      (\<forall>it \<in> set L. \<not> truthy (category it) \<longrightarrow> it \<in> set (autre (render_grouped U L))))"
proof -
  let ?k = "group_key U"
  let ?g = "render_grouped U L"
  have g: "?g = \<lparr> algorithme = filter (\<lambda>it. ?k it = str ''algorithme'') L,
       bibliographie = filter (\<lambda>it. ?k it \<noteq> str ''algorithme'' \<and> ?k it = str ''bibliographie'') L,
       autre = filter (\<lambda>it. ?k it \<noteq> str ''algorithme'' \<and> ?k it \<noteq> str ''bibliographie'') L \<rparr>"
    unfolding render_grouped_def foldl_push_to by simp
  have a: "algorithme ?g =
     filter (\<lambda>it. lowered_category U it \<in> {str ''algorithme'', str ''algorithm'', str ''algo''}) L"
    unfolding g by (auto intro!: filter_cong simp: group_key_cases str_def)
  have b: "bibliographie ?g =
     filter (\<lambda>it. lowered_category U it \<in> {str ''bibliographie'', str ''biblio''}) L"
    unfolding g by (auto intro!: filter_cong simp: group_key_cases str_def)
  have c: "autre ?g =
     filter (\<lambda>it. lowered_category U it \<notin>
        {str ''algorithme'', str ''algorithm'', str ''algo'', str ''bibliographie'', str ''biblio''}) L"
    unfolding g by (auto intro!: filter_cong simp: group_key_cases str_def)
  have m: "mset (algorithme ?g @ bibliographie ?g @ autre ?g) = mset L"
    unfolding g using mset_three_filters[of "\<lambda>it. ?k it = str ''algorithme''" L
        "\<lambda>it. ?k it = str ''bibliographie''"] by simp
  have d: "toLowerCase U (str ''autre'') = str ''autre'' \<longrightarrow>
      (\<forall>it \<in> set L. \<not> truthy (category it) \<longrightarrow> it \<in> set (autre ?g))"
  proof (intro impI ballI)
    fix it
    assume low: "toLowerCase U (str ''autre'') = str ''autre''" and "it \<in> set L"
      and "\<not> truthy (category it)"
    then have "lowered_category U it = trim (str ''autre'')"
      by (simp add: lowered_category_def or_else_def)
    also have "\<dots> = str ''autre''"
      by (simp add: trim_def str_def isWhiteSpace_def)
    finally have "lowered_category U it = str ''autre''" .
    then have "lowered_category U it \<notin>
        {str ''algorithme'', str ''algorithm'', str ''algo'', str ''bibliographie'', str ''biblio''}"
      by (simp add: str_def)
    with \<open>it \<in> set L\<close> show "it \<in> set (autre ?g)" unfolding c by simp
  qed
  from a b c m d show ?thesis by blast
qed

theorem render_grouped_partition_witness:
  "render_grouped basic_latin
     [blank\<lparr>category := Some (str '' Algo ''), title := Some (str ''a'')\<rparr>,
      blank\<lparr>title := Some (str ''b'')\<rparr>,
      blank\<lparr>category := Some (str ''BIBLIO''), title := Some (str ''c'')\<rparr>,
      blank\<lparr>category := Some (str ''divers''), title := Some (str ''d'')\<rparr>,
      blank\<lparr>category := Some (str ''Algorithm''), title := Some (str ''e'')\<rparr>] =
   \<lparr> algorithme = [blank\<lparr>category := Some (str '' Algo ''), title := Some (str ''a'')\<rparr>,
                    blank\<lparr>category := Some (str ''Algorithm''), title := Some (str ''e'')\<rparr>],
      bibliographie = [blank\<lparr>category := Some (str ''BIBLIO''), title := Some (str ''c'')\<rparr>],
      autre = [blank\<lparr>title := Some (str ''b'')\<rparr>,
               blank\<lparr>category := Some (str ''divers''), title := Some (str ''d'')\<rparr>] \<rparr>"
  using render_grouped_partition
    [of basic_latin
      "[blank\<lparr>category := Some (str '' Algo ''), title := Some (str ''a'')\<rparr>,
        blank\<lparr>title := Some (str ''b'')\<rparr>,
        blank\<lparr>category := Some (str ''BIBLIO''), title := Some (str ''c'')\<rparr>,
        blank\<lparr>category := Some (str ''divers''), title := Some (str ''d'')\<rparr>,
        blank\<lparr>category := Some (str ''Algorithm''), title := Some (str ''e'')\<rparr>]"]
  by (simp add: lowered_category_def or_else_def or_empty_def truthy_def blank_def basic_latin_def
      trim_def isWhiteSpace_def str_def)

text \<open>
  C6: \<open>filterItems('')\<close> returns the list of records itself, unchanged in order and
  length.
\<close>

theorem filterItems_empty_query: "filterItems U items (str '''') = items"
  by (simp add: filterItems_def str_def)

section \<open>The converter\<close>

lemmas number_eval = str_def trim_def isWhiteSpace_def startsWith_def Number_def
  unsigned_decimal_def exponent_part_def signed_integer_def isDigit_def digits_value_def
  radix_value_def hexval_def isNaN_def

subsection \<open>A pair of zero magnitude\<close>

text \<open>
  C1 (a line whose S11 pair is 0, 0 yields the sentinel \<open>-100\<close>, written \<open>-100.00\<close>).
  The script computes \<open>20*Math.log10(Math.hypot(0, 0))\<close> with no test on the magnitude:
  the value is \<open>-Infinity\<close>, nothing is thrown, and the row of the S11 table reads
  \<open>-Infinity\<close>. The Python function shown on the same page writes \<open>-100\<close> there.
\<close>

theorem zero_magnitude_gives_minus_infinity:
  "parseS2P (str ''1000 0 0 1 0'') = \<lparr>freqs = [Fin 1000], s11 = [NInf], s21 = [Fin 0]\<rparr> \<and>
   buildDat [Fin 1000] [NInf] (str ''S11(dB)'') =
     Inr (str ''# Frequency(Hz)'' @ [0x09] @ str ''S11(dB)'' @ [0x0A] @
          str ''1000'' @ [0x09] @ str ''-Infinity'')"
  by (simp add: parseS2P_def parse_step_def buildDat_def number_eval hypot_def log10_js_def
      times20_def round_js_def num_to_string_def toFixed2_def Let_def)

subsection \<open>Skipped lines\<close>

lemma trim_keeps_head:
  "\<not> isWhiteSpace c \<Longrightarrow> trim (c # cs) = c # rev (dropWhile isWhiteSpace (rev cs))"
  by (simp add: trim_def dropWhile_append3)

lemma take_five: "5 \<le> length p \<Longrightarrow> take 5 p = [p ! 0, p ! 1, p ! 2, p ! 3, p ! 4]"
  by (auto simp: eval_nat_numeral Suc_le_length_iff)

lemma parse_step_malformed: "malformed_line l \<Longrightarrow> parse_step acc l = acc"
proof -
  assume "malformed_line l"
  then consider (empty) "l = []"
    | (hash) "startsWith l (str ''#'')" "l \<noteq> []"
    | (bang) "startsWith l (str ''!'')" "l \<noteq> []"
    | (short) "length (split_ws (trim l)) < 5"
    | (nan) "5 \<le> length (split_ws (trim l))"
        "\<exists>t \<in> set (take 5 (split_ws (trim l))). isNaN (Number t)"
    unfolding malformed_line_def by fastforce
  then show ?thesis
  proof cases
    case empty
    then show ?thesis by (simp add: parse_step_def trim_def)
  next
    case hash
    then obtain cs where l: "l = 0x23 # cs" by (cases l) (auto simp: startsWith_def str_def)
    have "\<not> isWhiteSpace 0x23" by (simp add: isWhiteSpace_def)
    then have "startsWith (trim l) (str ''#'')"
      unfolding l by (simp add: trim_keeps_head startsWith_def str_def)
    then show ?thesis by (simp add: parse_step_def)
  next
    case bang
    then obtain cs where l: "l = 0x21 # cs" by (cases l) (auto simp: startsWith_def str_def)
    have "\<not> isWhiteSpace 0x21" by (simp add: isWhiteSpace_def)
    then have "startsWith (trim l) (str ''!'')"
      unfolding l by (simp add: trim_keeps_head startsWith_def str_def)
    then show ?thesis by (simp add: parse_step_def)
  next
    case short
    then show ?thesis by (simp add: parse_step_def Let_def)
  next
    case nan
    let ?p = "split_ws (trim l)"
    from nan have "list_ex isNaN [Number (?p ! 0), Number (?p ! 1), Number (?p ! 2),
        Number (?p ! 3), Number (?p ! 4)]"
      by (simp add: take_five)
    then show ?thesis by (simp add: parse_step_def Let_def)
  qed
qed

text \<open>
  C7: a malformed line \<open>l\<close> of the input leaves the three accumulators as they are,
  and the result of \<open>parseS2P\<close> is the result of the loop over the other lines:
  \<open>l\<close> adds no row to either table and the lines after it are still converted.
  \<open>parseS2P\<close> has no failing branch, so nothing is raised.
\<close>

theorem malformed_line_skipped:
  assumes "split_lines text = before @ l # after"
    and "malformed_line l"
  shows "parse_step acc l = acc \<and>
         parseS2P text = foldl parse_step \<lparr>freqs = [], s11 = [], s21 = []\<rparr> (before @ after)"
  using assms by (simp add: parseS2P_def parse_step_malformed)

theorem malformed_line_skipped_witness:
  "parseS2P (str ''10 1 0 1 0'' @ [0x0A] @ str ''1 2 x 4 5'') =
     \<lparr>freqs = [Fin 10], s11 = [Fin 0], s21 = [Fin 0]\<rparr>"
proof -
  have sp: "split_lines (str ''10 1 0 1 0'' @ [0x0A] @ str ''1 2 x 4 5'') =
      [str ''10 1 0 1 0''] @ str ''1 2 x 4 5'' # []"
    by (simp add: str_def)
  have bad: "malformed_line (str ''1 2 x 4 5'')"
    by (simp add: malformed_line_def number_eval)
  have good: "parse_step \<lparr>freqs = [], s11 = [], s21 = []\<rparr> (str ''10 1 0 1 0'') =
      \<lparr>freqs = [Fin 10], s11 = [Fin 0], s21 = [Fin 0]\<rparr>"
    by (simp add: parse_step_def number_eval hypot_def log10_js_def times20_def Let_def)
  from malformed_line_skipped[OF sp bad] good show ?thesis by simp
qed

subsection \<open>No valid row\<close>

lemma msg_ok_not_no_data: "msg_ok n \<noteq> msg_no_data"
  by (simp add: msg_ok_def msg_no_data_def str_def)

lemma msg_error_not_no_data: "msg_error e \<noteq> msg_no_data"
  by (simp add: msg_error_def msg_no_data_def str_def)

lemma msg_choose_not_no_data: "msg_choose_file \<noteq> msg_no_data"
  by (simp add: msg_choose_file_def msg_no_data_def str_def)

text \<open>
  C8: when \<open>parseS2P\<close> finds no valid row, the click leaves the list of generated
  links empty and hidden and sets the status to the message \<open>msg_no_data\<close>;
  that status appears in no other case (not after a conversion with rows, not when no
  file is selected).
\<close>

theorem no_valid_rows_no_links:
  assumes "freqs (parseS2P text) = []"
  shows "convert_click (Some (name, text)) ui =
           ui\<lparr>generated_links := [], links_display := str ''none'', status := msg_no_data\<rparr> \<and>
         (\<forall>n t. status (convert_click (Some (n, t)) ui) = msg_no_data \<longrightarrow>
                  freqs (parseS2P t) = []) \<and>
         status (convert_click None ui) \<noteq> msg_no_data"
proof (intro conjI allI impI)
  show "convert_click (Some (name, text)) ui =
           ui\<lparr>generated_links := [], links_display := str ''none'', status := msg_no_data\<rparr>"
    using assms by (simp add: convert_click_def)
  show "status (convert_click None ui) \<noteq> msg_no_data"
    by (simp add: convert_click_def msg_choose_not_no_data)
  fix n t
  assume "status (convert_click (Some (n, t)) ui) = msg_no_data"
  then show "freqs (parseS2P t) = []"
    by (auto simp: convert_click_def Let_def msg_ok_not_no_data msg_error_not_no_data
        split: if_splits sum.splits)
qed

theorem no_valid_rows_no_links_witness:
  "convert_click (Some (str ''mesure.s2p'', str ''# Hz S RI R 50'' @ [0x0A] @ str ''1 2 3''))
     \<lparr>generated_links = [makeDownload (str ''old'') (str ''old_S11.dat'')],
      links_display = str ''block'', status = msg_ok 3\<rparr> =
   \<lparr>generated_links = [], links_display = str ''none'', status = msg_no_data\<rparr>"
proof -
  have "parseS2P (str ''# Hz S RI R 50'' @ [0x0A] @ str ''1 2 3'') =
      \<lparr>freqs = [], s11 = [], s21 = []\<rparr>"
    by (simp add: parseS2P_def parse_step_def str_def trim_def isWhiteSpace_def startsWith_def)
  then have "freqs (parseS2P (str ''# Hz S RI R 50'' @ [0x0A] @ str ''1 2 3'')) = []" by simp
  from no_valid_rows_no_links[OF this] show ?thesis by simp
qed


section \<open>Normalisation\<close>

lemma last_dropWhile: "dropWhile P xs \<noteq> [] \<Longrightarrow> last (dropWhile P xs) = last xs"
  by (induction xs) (auto split: if_splits)

lemma hd_dropWhile_or: "dropWhile P xs = [] \<or> \<not> P (hd (dropWhile P xs))"
  by (cases "dropWhile P xs = []") (simp_all add: hd_dropWhile)

lemma trimmed_strip_end:
  "a = [] \<or> \<not> isWhiteSpace (hd a) \<Longrightarrow> trimmed (rev (dropWhile isWhiteSpace (rev a)))"
proof (cases "dropWhile isWhiteSpace (rev a) = []")
  case True
  then show ?thesis by (simp add: trimmed_def)
next
  case False
  let ?b = "dropWhile isWhiteSpace (rev a)"
  assume a: "a = [] \<or> \<not> isWhiteSpace (hd a)"
  from False have ne: "a \<noteq> []" by auto
  with a have ha: "\<not> isWhiteSpace (hd a)" by simp
  from False have hb: "\<not> isWhiteSpace (hd ?b)"
    using hd_dropWhile_or[of isWhiteSpace "rev a"] by blast
  from False have "last ?b = last (rev a)" by (rule last_dropWhile)
  then have "last ?b = hd a" using ne by (simp add: last_rev)
  with ha hb False show ?thesis
    by (simp add: trimmed_def hd_rev last_rev)
qed

lemma trim_trimmed: "trimmed (trim s)"
  unfolding trim_def by (rule trimmed_strip_end) (rule hd_dropWhile_or)

lemma trim_id: "trimmed s \<Longrightarrow> trim s = s"
proof (cases "s = []")
  case True then show ?thesis by (simp add: trim_def)
next
  case False
  assume "trimmed s"
  with False have h: "\<not> isWhiteSpace (hd s)" and l: "\<not> isWhiteSpace (last s)"
    by (auto simp: trimmed_def)
  from False h have 1: "dropWhile isWhiteSpace s = s" by (cases s) auto
  from False l have 2: "dropWhile isWhiteSpace (rev s) = rev s"
    by (cases "rev s") (auto simp: last_rev[symmetric] hd_rev)
  show ?thesis by (simp add: trim_def 1 2)
qed

lemma collapse_ws_id: "single_spaced s \<Longrightarrow> collapse_ws s = s"
proof (induction s rule: collapse_ws.induct)
  case 1 then show ?case by simp
next
  case (2 c cs)
  show ?case
  proof (cases "isWhiteSpace c")
    case True
    with "2.prems" have c: "c = 0x20" and ne: "cs \<noteq> []" and h: "\<not> isWhiteSpace (hd cs)"
      and ss: "single_spaced cs"
      by auto
    from ne h have dw: "dropWhile isWhiteSpace cs = cs" by (cases cs) auto
    from "2.IH"(1)[OF True] ss dw have "collapse_ws cs = cs" by simp
    with True c dw show ?thesis by simp
  next
    case False
    with "2.prems" have "single_spaced cs" by simp
    with "2.IH"(2)[OF False] False show ?thesis by simp
  qed
qed

lemma collapse_ws_Nil_iff: "collapse_ws s = [] \<longleftrightarrow> s = []"
  by (cases s) auto

lemma hd_collapse_ws: "s \<noteq> [] \<Longrightarrow> \<not> isWhiteSpace (hd s) \<Longrightarrow> hd (collapse_ws s) = hd s"
  by (cases s) auto

lemma last_collapse_ws:
  "s \<noteq> [] \<Longrightarrow> \<not> isWhiteSpace (last s) \<Longrightarrow> last (collapse_ws s) = last s"
proof (induction s rule: collapse_ws.induct)
  case 1 then show ?case by simp
next
  case (2 c cs)
  show ?case
  proof (cases "isWhiteSpace c")
    case True
    with "2.prems" have ne: "cs \<noteq> []" by auto
    with "2.prems" have l: "\<not> isWhiteSpace (last cs)" by simp
    let ?d = "dropWhile isWhiteSpace cs"
    from ne l have dne: "?d \<noteq> []" by (metis dropWhile_eq_Nil_conv last_in_set)
    then have ld: "last ?d = last cs" by (simp add: last_dropWhile)
    have cne: "collapse_ws ?d \<noteq> []" using dne collapse_ws_Nil_iff by blast
    from "2.IH"(1)[OF True dne] l ld have "last (collapse_ws ?d) = last cs" by simp
    with True cne ne show ?thesis by simp
  next
    case False
    show ?thesis
    proof (cases "cs = []")
      case True with False show ?thesis by simp
    next
      case ne: False
      with "2.prems" have "\<not> isWhiteSpace (last cs)" by simp
      from "2.IH"(2)[OF False ne this] ne False show ?thesis by (simp add: collapse_ws_Nil_iff)
    qed
  qed
qed

lemma single_spaced_collapse_ws:
  "s = [] \<or> \<not> isWhiteSpace (last s) \<Longrightarrow> single_spaced (collapse_ws s)"
proof (induction s rule: collapse_ws.induct)
  case 1 then show ?case by simp
next
  case (2 c cs)
  show ?case
  proof (cases "isWhiteSpace c")
    case True
    with "2.prems" have ne: "cs \<noteq> []" by auto
    with "2.prems" have l: "\<not> isWhiteSpace (last cs)" by simp
    let ?d = "dropWhile isWhiteSpace cs"
    from ne l have dne: "?d \<noteq> []" by (metis dropWhile_eq_Nil_conv last_in_set)
    then have ld: "last ?d = last cs" by (simp add: last_dropWhile)
    have hd: "\<not> isWhiteSpace (hd ?d)" using dne hd_dropWhile_or[of isWhiteSpace cs] by blast
    have cne: "collapse_ws ?d \<noteq> []" using dne collapse_ws_Nil_iff by blast
    from "2.IH"(1)[OF True] l ld have ss: "single_spaced (collapse_ws ?d)" by simp
    from hd dne have "\<not> isWhiteSpace (hd (collapse_ws ?d))"
      using hd_collapse_ws[of ?d] by metis
    with True ss cne show ?thesis by simp
  next
    case False
    have "cs = [] \<or> \<not> isWhiteSpace (last cs)" using "2.prems" by (cases "cs = []") auto
    from "2.IH"(2)[OF False this] False show ?thesis by simp
  qed
qed

lemma trimmed_collapse_ws: "trimmed s \<Longrightarrow> trimmed (collapse_ws s)"
  unfolding trimmed_def
  by (auto simp: collapse_ws_Nil_iff hd_collapse_ws last_collapse_ws)

text \<open>Trimming and collapsing a second time changes nothing.\<close>

lemma collapse_trim_fixed:
  "collapse_ws (trim (collapse_ws (trim x))) = collapse_ws (trim x)"
proof -
  have t: "trimmed (trim x)" by (rule trim_trimmed)
  then have 1: "trimmed (collapse_ws (trim x))" by (rule trimmed_collapse_ws)
  from t have "trim x = [] \<or> \<not> isWhiteSpace (last (trim x))" by (auto simp: trimmed_def)
  then have 2: "single_spaced (collapse_ws (trim x))" by (rule single_spaced_collapse_ws)
  show ?thesis by (simp add: trim_id[OF 1] collapse_ws_id[OF 2])
qed

text \<open>On ASCII strings the normal form is again ASCII and has no capital letter.\<close>

lemma basic_latin_ascii_exact: "ascii_exact basic_latin"
  by (auto simp: ascii_exact_def ascii_def basic_latin_def)

lemma set_dropWhile_subset: "set (dropWhile P xs) \<subseteq> set xs"
  by (auto dest: set_dropWhileD)

lemma set_trim: "set (trim s) \<subseteq> set s"
  using set_dropWhile_subset[of isWhiteSpace "rev (dropWhile isWhiteSpace s)"]
    set_dropWhile_subset[of isWhiteSpace s]
  by (auto simp: trim_def)

lemma set_collapse_ws: "set (collapse_ws s) \<subseteq> insert 0x20 (set s)"
proof (induction s rule: collapse_ws.induct)
  case 1 then show ?case by simp
next
  case (2 c cs)
  show ?case
  proof (cases "isWhiteSpace c")
    case True
    have "set (dropWhile isWhiteSpace cs) \<subseteq> set cs" by (rule set_dropWhile_subset)
    with "2.IH"(1)[OF True] True show ?thesis by auto
  next
    case False
    with "2.IH"(2)[OF False] show ?thesis by auto
  qed
qed

lemma norm_js_ascii_stable:
  assumes "ascii_exact U" and "ascii s"
  shows "normalizeNFKC U (norm_js U s) = norm_js U s \<and>
         toLowerCase U (norm_js U s) = norm_js U s"
proof -
  let ?low = "\<lambda>c::nat. if 0x41 \<le> c \<and> c \<le> 0x5A then c + 0x20 else c"
  let ?t = "norm_js U s"
  have t: "?t = (if s = [] then [] else collapse_ws (trim (map ?low s)))"
    using assms by (simp add: norm_js_def ascii_exact_def)
  have "set ?t \<subseteq> insert 0x20 (set (map ?low s))"
    unfolding t using set_collapse_ws[of "trim (map ?low s)"] set_trim[of "map ?low s"] by auto
  then have each: "\<forall>c \<in> set ?t. c < 0x80 \<and> \<not> (0x41 \<le> c \<and> c \<le> 0x5A)"
    using assms(2) by (auto simp: ascii_def split: if_splits)
  then have a: "ascii ?t" by (simp add: ascii_def)
  from each have "map ?low ?t = ?t" by (intro map_idI) auto
  with a assms(1) show ?thesis by (simp add: ascii_exact_def)
qed

text \<open>
  C9, as stated (\<open>norm(norm(s)) = norm(s)\<close> for every string), fails: lowercasing
  the NFKC form of a string need not give a string in NFKC form. For \<open>J\<close> followed by
  the combining caron U+030C, \<open>norm\<close> yields \<open>j\<close> followed by U+030C (two code units),
  and \<open>norm\<close> of that is the single letter U+01F0.
\<close>

theorem norm_not_idempotent:
  "norm_js basic_latin [0x4A, 0x30C] = [0x6A, 0x30C] \<and>
   norm_js basic_latin (norm_js basic_latin [0x4A, 0x30C]) = [0x1F0] \<and>
   norm_js basic_latin (norm_js basic_latin [0x4A, 0x30C]) \<noteq> norm_js basic_latin [0x4A, 0x30C]"
  by (simp add: norm_js_def basic_latin_def trim_def isWhiteSpace_def)

text \<open>
  C9, amended: \<open>norm(norm(s)) = norm(s)\<close> for every string \<open>s\<close> whose normal form
  \<open>norm(s)\<close> is left unchanged by NFKC normalisation and by lowercasing, whatever the
  host's Unicode tables are. By \<open>norm_js_ascii_stable\<close> every string of ASCII
  characters is such a string.
\<close>

theorem norm_idempotent_on_stable:
  assumes "normalizeNFKC U (norm_js U s) = norm_js U s"
    and "toLowerCase U (norm_js U s) = norm_js U s"
  shows "norm_js U (norm_js U s) = norm_js U s"
proof (cases "norm_js U s = []")
  case True
  then show ?thesis by (simp add: norm_js_def)
next
  case False
  then have s: "s \<noteq> []" by (auto simp: norm_js_def)
  have "norm_js U (norm_js U s) = collapse_ws (trim (norm_js U s))"
    using False assms by (simp add: norm_js_def[of U "norm_js U s"])
  also have "\<dots> = norm_js U s"
    using s by (simp add: norm_js_def[of U s] collapse_trim_fixed)
  finally show ?thesis .
qed

theorem norm_idempotent_on_stable_witness:
  "norm_js basic_latin (norm_js basic_latin (str ''  Hello   World '')) =
   norm_js basic_latin (str ''  Hello   World '') \<and>
   norm_js basic_latin (str ''  Hello   World '') = str ''hello world''"
proof -
  have n: "norm_js basic_latin (str ''  Hello   World '') = str ''hello world''"
    by (simp add: norm_js_def basic_latin_def trim_def isWhiteSpace_def str_def)
  have 1: "normalizeNFKC basic_latin (str ''hello world'') = str ''hello world''"
    by (simp add: basic_latin_def str_def)
  have 2: "toLowerCase basic_latin (str ''hello world'') = str ''hello world''"
    by (simp add: basic_latin_def str_def)
  show ?thesis
    using norm_idempotent_on_stable[of basic_latin "str ''  Hello   World ''"] n 1 2 by simp
qed

end
